theory Spec2Isabelle
  imports Main
begin

section \<open>Shared vocabulary\<close>

text \<open>
  Go errors are compared by their message in this code base (the gatekeeper tests
  \<open>err.Error()\<close> against a status text), so an error is its message. A function that
  returns \<open>(T, error)\<close> is a sum: \<open>Inl\<close> the error, \<open>Inr\<close> the value. A run-time panic
  (nil dereference, slice bounds) is not an error value: it is a separate outcome.
  Time is counted in milliseconds.
\<close>

type_synonym error = string
type_synonym bytes = string

datatype 'a outcome = Panic string | Return 'a

subsection \<open>Decimal integers (strconv.Itoa and the store's integer strings)\<close>

definition digit_char :: "nat \<Rightarrow> char" where
  "digit_char d = char_of (48 + d)"

definition digit_val :: "char \<Rightarrow> nat option" where
  "digit_val c = (let k = (of_char c :: nat) in if 48 \<le> k \<and> k \<le> 57 then Some (k - 48) else None)"

fun nat_digits :: "nat \<Rightarrow> string" where
  "nat_digits n = (if n < 10 then [digit_char n] else nat_digits (n div 10) @ [digit_char (n mod 10)])"

declare nat_digits.simps [simp del]

fun parse_digits :: "nat \<Rightarrow> string \<Rightarrow> nat option" where
  "parse_digits acc [] = Some acc"
| "parse_digits acc (c # cs) =
     (case digit_val c of None \<Rightarrow> None | Some d \<Rightarrow> parse_digits (acc * 10 + d) cs)"

definition Itoa :: "int \<Rightarrow> string" where
  "Itoa i = (if i < 0 then CHR ''-'' # nat_digits (nat (- i)) else nat_digits (nat i))"

text \<open>
  The store keeps every value as a string and increments only a string that is the
  canonical decimal form of an integer. Counters are unbounded here: the 64-bit limit
  of a real store is out of reach of a one-second window.
\<close>

definition parse_int :: "string \<Rightarrow> int option" where
  "parse_int s =
     (case s of
        [] \<Rightarrow> None
      | c # cs \<Rightarrow>
          (if c = CHR ''-'' then
             (if cs = [] then None else map_option (\<lambda>n. - int n) (parse_digits 0 cs))
           else map_option int (parse_digits 0 s)))"

definition store_int :: "string \<Rightarrow> int option" where
  "store_int s =
     (case parse_int s of
        None \<Rightarrow> None
      | Some n \<Rightarrow> if Itoa n = s then Some n else None)"

section \<open>The key-value store client\<close>

text \<open>
  Modelled from the spec: the KV store client (package \<open>resp\<close>, an external collaborator
  whose code is not part of the sources). Section 6 of the specification gives its
  interface: \<open>get(key) -> value|empty\<close>, \<open>set\<close>, \<open>setWithTTL\<close>, \<open>increment(key) -> newCount\<close>,
  \<open>expire(key, seconds)\<close>, \<open>delete(key)\<close>, each of which may fail with a backend error.

  The store is one keyspace of strings with an optional expiry deadline per key and a
  clock. A key whose deadline has passed is gone. Every call is logged in \<open>calls\<close>, and
  fails when the head of the fault schedule \<open>faults\<close> says so (an empty schedule means
  that every further call succeeds), so any pattern of backend failures is an input.
\<close>

datatype call =
    CGet string
  | CSet string string
  | CSetWithTTL string string int
  | CIncr string
  | CExpire string int
  | CDelete string

record store =
  kv :: "string \<rightharpoonup> string"
  expiry :: "string \<rightharpoonup> nat"
  clock :: nat
  faults :: "bool list"
  calls :: "call list"

definition backend_error :: error where
  "backend_error = ''backend error''"

definition begin_call :: "call \<Rightarrow> store \<Rightarrow> bool \<times> store" where
  "begin_call c s =
     (case faults s of
        [] \<Rightarrow> (False, s\<lparr>calls := calls s @ [c]\<rparr>)
      | f # fs \<Rightarrow> (f, s\<lparr>faults := fs, calls := calls s @ [c]\<rparr>))"

definition live :: "store \<Rightarrow> string \<Rightarrow> string option" where
  "live s k =
     (case kv s k of
        None \<Rightarrow> None
      | Some v \<Rightarrow> (case expiry s k of
                    None \<Rightarrow> Some v
                  | Some d \<Rightarrow> if clock s < d then Some v else None))"

definition advance :: "nat \<Rightarrow> store \<Rightarrow> store" where
  "advance ms s = s\<lparr>clock := clock s + ms\<rparr>"

definition Get :: "store \<Rightarrow> string \<Rightarrow> (error + string) \<times> store" where
  "Get s key =
     (let (f, s1) = begin_call (CGet key) s in
      if f then (Inl backend_error, s1)
      else (Inr (case live s1 key of None \<Rightarrow> [] | Some v \<Rightarrow> v), s1))"

definition Set_key :: "store \<Rightarrow> string \<Rightarrow> string \<Rightarrow> error option \<times> store" where
  "Set_key s key v =
     (let (f, s1) = begin_call (CSet key v) s in
      if f then (Some backend_error, s1)
      else (None, s1\<lparr>kv := (kv s1)(key \<mapsto> v), expiry := (expiry s1)(key := None)\<rparr>))"

definition SetWithTTL :: "store \<Rightarrow> string \<Rightarrow> string \<Rightarrow> int \<Rightarrow> error option \<times> store" where
  "SetWithTTL s key v ttl =
     (let (f, s1) = begin_call (CSetWithTTL key v ttl) s in
      if f then (Some backend_error, s1)
      else if ttl \<le> 0 then (Some ''ERR invalid expire time'', s1)
      else (None, s1\<lparr>kv := (kv s1)(key \<mapsto> v),
                      expiry := (expiry s1)(key \<mapsto> clock s1 + nat ttl * 1000)\<rparr>))"

definition Incr :: "store \<Rightarrow> string \<Rightarrow> (error + int) \<times> store" where
  "Incr s key =
     (let (f, s1) = begin_call (CIncr key) s in
      if f then (Inl backend_error, s1)
      else
        (case live s1 key of
           None \<Rightarrow> (Inr 1, s1\<lparr>kv := (kv s1)(key \<mapsto> Itoa 1), expiry := (expiry s1)(key := None)\<rparr>)
         | Some v \<Rightarrow>
             (case store_int v of
                None \<Rightarrow> (Inl ''ERR value is not an integer or out of range'', s1)
              | Some n \<Rightarrow> (Inr (n + 1), s1\<lparr>kv := (kv s1)(key \<mapsto> Itoa (n + 1))\<rparr>))))"

definition Expire :: "store \<Rightarrow> string \<Rightarrow> int \<Rightarrow> (error + bool) \<times> store" where
  "Expire s key secs =
     (let (f, s1) = begin_call (CExpire key secs) s in
      if f then (Inl backend_error, s1)
      else
        (case live s1 key of
           None \<Rightarrow> (Inr False, s1)
         | Some v \<Rightarrow>
             if secs \<le> 0 then
               (Inr True, s1\<lparr>kv := (kv s1)(key := None), expiry := (expiry s1)(key := None)\<rparr>)
             else (Inr True, s1\<lparr>expiry := (expiry s1)(key \<mapsto> clock s1 + nat secs * 1000)\<rparr>)))"

definition Delete :: "store \<Rightarrow> string \<Rightarrow> error option \<times> store" where
  "Delete s key =
     (let (f, s1) = begin_call (CDelete key) s in
      if f then (Some backend_error, s1)
      else (None, s1\<lparr>kv := (kv s1)(key := None), expiry := (expiry s1)(key := None)\<rparr>))"

section \<open>Rate limiter (limiter/limitter.go)\<close>

definition UserRateKeySuffix :: string where
  "UserRateKeySuffix = ''-rate''"

definition UserRateLimitingWindow :: int where
  "UserRateLimitingWindow = 1"

text \<open>
  \<open>allow\<close>: increment the counter of \<open>userId-rate\<close>; when the new count is 1 set the
  expiry of the key to the window; report \<open>count \<le> limit\<close>. An error of either store
  call is returned as it is.
\<close>

definition allow :: "store \<Rightarrow> string \<Rightarrow> int \<Rightarrow> (error + bool) \<times> store" where
  "allow respClint userId limit =
     (let key = userId @ UserRateKeySuffix in
      case Incr respClint key of
        (Inl err, s1) \<Rightarrow> (Inl err, s1)
      | (Inr count, s1) \<Rightarrow>
          if count = 1 then
            (case Expire s1 key UserRateLimitingWindow of
               (Inl err, s2) \<Rightarrow> (Inl err, s2)
             | (Inr _, s2) \<Rightarrow> (Inr (count \<le> limit), s2))
          else (Inr (count \<le> limit), s1))"

text \<open>
  A run of requests of one tenant: each request arrives some milliseconds after the
  one before it (the first after the start of the run) and calls \<open>allow\<close>.
\<close>

fun allow_run :: "store \<Rightarrow> string \<Rightarrow> int \<Rightarrow> nat list \<Rightarrow> (error + bool) list \<times> store" where
  "allow_run s userId limit [] = ([], s)"
| "allow_run s userId limit (d # ds) =
     (let (r, s1) = allow (advance d s) userId limit;
          (rs, s2) = allow_run s1 userId limit ds
      in (r # rs, s2))"

section \<open>Plan resolver (limiter/plan_proxy.go)\<close>

text \<open>
  The HTTP client and the JSON decoder belong to the Go standard library; they are
  parameters. \<open>Do\<close> answers a request with Go's pair \<open>(*Response, error)\<close>: on a
  transport error the response is nil (\<open>None\<close>); a response together with an error is what
  a failed redirect gives. \<open>NewRequest_error\<close> is the verdict of \<open>http.NewRequest\<close> on
  the URL string.
\<close>

record http_request =
  Method :: string
  URL :: string
  ReqHeaders :: "(string \<times> string) list"
  Payload :: bytes

record http_response =
  resStatusCode :: int
  resBody :: bytes

record http =
  NewRequest_error :: "string \<Rightarrow> error option"
  Do :: "http_request \<Rightarrow> http_response option \<times> error option"

record PlanProxyResponse =
  RequestLimit :: int

record PlanProxy =
  requestUrl :: string
  proxyApiKey :: string

definition StatusOK :: int where
  "StatusOK = 200"

definition nil_dereference :: string where
  "nil_dereference = ''invalid memory address or nil pointer dereference''"

definition something_went_wrong :: error where
  "something_went_wrong = ''something went wrong''"

text \<open>
  \<open>fetch\<close>. The statement \<open>defer httpRes.Body.Close()\<close> stands before the test of
  \<open>err\<close>; a defer statement evaluates its receiver \<open>httpRes.Body\<close> when it is executed, so
  with a nil \<open>httpRes\<close> it panics there and the test of \<open>err\<close> is never reached. The log
  lines of the function are not part of its result and are left out; the query string
  is written without escaping (a tenant identity is a canonical UUID).
\<close>

definition fetch ::
  "http \<Rightarrow> (bytes \<Rightarrow> error + PlanProxyResponse) \<Rightarrow> PlanProxy \<Rightarrow> string \<Rightarrow> (error + string) outcome" where
  "fetch net json_Decode proxy userId =
     (let url = requestUrl proxy @ ''?userId='' @ userId in
      case NewRequest_error net url of
        Some err \<Rightarrow> Return (Inl something_went_wrong)
      | None \<Rightarrow>
          (let httpReq = \<lparr>Method = ''GET'', URL = url,
                          ReqHeaders = [(''Content-Type'', ''application/json''),
                                        (''X-Api-Key'', proxyApiKey proxy)],
                          Payload = []\<rparr>
           in case Do net httpReq of
                (None, _) \<Rightarrow> Panic nil_dereference
              | (Some httpRes, Some err) \<Rightarrow> Return (Inl something_went_wrong)
              | (Some httpRes, None) \<Rightarrow>
                  if resStatusCode httpRes \<noteq> StatusOK then Return (Inl something_went_wrong)
                  else (case json_Decode (resBody httpRes) of
                          Inl err \<Rightarrow> Return (Inl something_went_wrong)
                        | Inr response \<Rightarrow> Return (Inr (Itoa (RequestLimit response))))))"

section \<open>Response cache (cache/cache.go)\<close>

text \<open>
  A header is a multimap, kept as an association list with one entry per key. The real
  response writer is seen through the calls made on it: its header map and the sequence
  of \<open>WriteHeader\<close> and \<open>Write\<close> calls it received.
\<close>

type_synonym header = "(string \<times> string list) list"

fun header_Add :: "header \<Rightarrow> string \<Rightarrow> string \<Rightarrow> header" where
  "header_Add [] k v = [(k, [v])]"
| "header_Add ((k', vs) # h) k v =
     (if k' = k then (k', vs @ [v]) # h else (k', vs) # header_Add h k v)"

datatype wcall = WriteHeader int | Write bytes

record ResponseWriter =
  Header :: header
  written :: "wcall list"

record CachedResponse =
  StatusCode :: int
  Headers :: header
  Body :: bytes

text \<open>
  The gob encoding of an envelope is a parameter: \<open>Encode\<close> gives what the encoder left
  in the buffer and its error, \<open>Decode\<close> the envelope or an error.
\<close>

record gob =
  Encode :: "CachedResponse \<Rightarrow> bytes \<times> error option"
  Decode :: "bytes \<Rightarrow> error + CachedResponse"

text \<open>
  A request, as far as this middleware reads it: the path, the headers and the body
  stream (its bytes, and the error that ends it when it does not end cleanly).
\<close>

record body =
  content :: bytes
  read_err :: "error option"

record request =
  URL_Path :: string
  ReqHeader :: header
  ReqBody :: body

text \<open>
  The upstream handler is given by what it does to the response writer it is handed.
\<close>

datatype hop = HAdd string string | HWriteHeader int | HWrite bytes

type_synonym handler = "request \<Rightarrow> hop list"

text \<open>
  Modelled from the spec: \<open>responseRecorder\<close>, whose declaration and methods are not in
  the sources (only its use in \<open>ServeHTTP\<close> is). The specification says that it captures
  status code, headers and body while the upstream handler runs. The source builds it as
  \<open>&responseRecorder{rw: rw}\<close>, so status and body start at their zero values, and
  never copies headers to the real writer afterwards: \<open>Header()\<close> hands out the header map
  of the wrapped writer.
\<close>

record responseRecorder =
  rw :: ResponseWriter
  status :: int
  recorded :: bytes

definition recorder_apply :: "hop \<Rightarrow> responseRecorder \<Rightarrow> responseRecorder" where
  "recorder_apply op r =
     (case op of
        HAdd k v \<Rightarrow> r\<lparr>rw := (rw r)\<lparr>Header := header_Add (Header (rw r)) k v\<rparr>\<rparr>
      | HWriteHeader code \<Rightarrow> r\<lparr>status := code\<rparr>
      | HWrite b \<Rightarrow> r\<lparr>recorded := recorded r @ b\<rparr>)"

record cache =
  cacheExpiry :: int

definition NewCache :: "int \<Rightarrow> cache" where
  "NewCache ttl = \<lparr>cacheExpiry = ttl\<rparr>"

text \<open>The replay of a decoded envelope on a hit.\<close>

definition replay :: "ResponseWriter \<Rightarrow> CachedResponse \<Rightarrow> ResponseWriter" where
  "replay w cachedResponse =
     (let h = fold (\<lambda>(key, values) h. fold (\<lambda>value h. header_Add h key value) values h)
                (Headers cachedResponse) (Header w)
      in w\<lparr>Header := h,
            written := written w @ [WriteHeader (StatusCode cachedResponse), Write (Body cachedResponse)]\<rparr>)"

text \<open>
  \<open>recorder := &responseRecorder{rw: rw}; next.ServeHTTP(recorder, req)\<close>: the recorder
  after the upstream handler has run on it.
\<close>

definition record_upstream :: "ResponseWriter \<Rightarrow> request \<Rightarrow> handler \<Rightarrow> responseRecorder" where
  "record_upstream w req next = fold recorder_apply (next req) \<lparr>rw = w, status = 0, recorded = []\<rparr>"

text \<open>
  The second half of \<open>ServeHTTP\<close>, from the comment ``Cache miss - record the response''
  on: it is reached when the lookup failed, found nothing, or found an entry that does
  not decode. The result is the response writer, the store and the lines logged.
\<close>

definition cache_miss ::
  "gob \<Rightarrow> cache \<Rightarrow> ResponseWriter \<Rightarrow> request \<Rightarrow> handler \<Rightarrow> store \<Rightarrow> ResponseWriter \<times> store \<times> string list" where
  "cache_miss codec c w req next respClient =
     (let cacheKey = URL_Path req;
          recorder = record_upstream w req next;
          cachedResponse = \<lparr>StatusCode = status recorder, Headers = Header (rw recorder),
                            Body = recorded recorder\<rparr>;
          (buffer, encErr) = Encode codec cachedResponse;
          logged = (case encErr of
                      None \<Rightarrow> []
                    | Some err \<Rightarrow> [''Failed to serialize response for caching: '' @ err]);
          (err, s1) = SetWithTTL respClient cacheKey buffer (cacheExpiry c)
      in ((rw recorder)\<lparr>written := written (rw recorder) @
                            [WriteHeader (status recorder), Write (recorded recorder)]\<rparr>,
          s1, logged))"

definition cache_ServeHTTP ::
  "gob \<Rightarrow> cache \<Rightarrow> ResponseWriter \<Rightarrow> request \<Rightarrow> handler \<Rightarrow> store \<Rightarrow> ResponseWriter \<times> store \<times> string list" where
  "cache_ServeHTTP codec c w req next respClient =
     (let cacheKey = URL_Path req in
      case Get respClient cacheKey of
        (Inl err, s1) \<Rightarrow> cache_miss codec c w req next s1
      | (Inr cachedData, s1) \<Rightarrow>
          if cachedData \<noteq> [] then
            (case Decode codec cachedData of
               Inr cachedResponse \<Rightarrow> (replay w cachedResponse, s1, [])
             | Inl err \<Rightarrow> cache_miss codec c w req next (snd (Delete s1 cacheKey)))
          else cache_miss codec c w req next s1)"

section \<open>Activity recorder (activity/activity.go)\<close>

record activityRequestDto =
  RequestId :: string
  Count :: int

text \<open>
  A buffered channel: its capacity and the entries waiting in it. Sender and receiver
  are separate steps here; a hand-over to a receiver that is already waiting is an
  enqueue followed at once by the receiver's step.
\<close>

record chan =
  capacity :: nat
  queue :: "activityRequestDto list"

record activity =
  remoteAddress :: string
  activityApiKey :: string
  batchSize :: int
  flushInterval :: int
  logsChannel :: chan

definition NewActivity :: "string \<Rightarrow> string \<Rightarrow> int \<Rightarrow> int \<Rightarrow> int \<Rightarrow> activity outcome" where
  "NewActivity address key bufferSize batch_size flush_interval =
     (if bufferSize < 0 then Panic ''makechan: size out of range''
      else Return \<lparr>remoteAddress = address, activityApiKey = key, batchSize = batch_size,
                   flushInterval = flush_interval,
                   logsChannel = \<lparr>capacity = nat bufferSize, queue = []\<rparr>\<rparr>)"

text \<open>
  \<open>LogActivity\<close>: a \<open>select\<close> with a send case and a \<open>default\<close> case. The result is
  the recorder and the lines logged; the function has no return value and no error.
  The pooled buffer it takes and gives back is never written to.
\<close>

definition LogActivity :: "activity \<Rightarrow> string \<Rightarrow> int \<Rightarrow> activity \<times> string list" where
  "LogActivity a requestId cnt =
     (let logEntry = \<lparr>RequestId = requestId, Count = cnt\<rparr>;
          ch = logsChannel a
      in if length (queue ch) < capacity ch
         then (a\<lparr>logsChannel := ch\<lparr>queue := queue ch @ [logEntry]\<rparr>\<rparr>, [])
         else (a, [''Dropped some log entries due to full buffer channel'']))"







section \<open>Request gatekeeper (crossover.go)\<close>

text \<open>
  A compiled pattern is what \<open>FindStringSubmatch\<close> makes of it: from a path to the
  leftmost match followed by its groups, or to the empty list when nothing matches.
  \<open>regexp.MustCompile\<close>, \<open>url.Parse\<close> and \<open>uuid.Parse\<close> are parameters.
\<close>

type_synonym regexp = "string \<Rightarrow> string list"

record Config =
  Pattern :: string
  APIKey :: string
  ActivityAddress :: string
  PlanAddress :: string
  RedisAddress :: string
  RedisAuth :: string
  CacheExpiry :: int
  BufferSize :: int
  BatchSize :: int
  FlushInterval :: int

record limiter =
  planProxy :: PlanProxy

record Crossover =
  next_handler :: handler
  name :: string
  compiledPattern :: regexp
  apiKey :: string
  planAddress :: string
  redisAddress :: string
  redisAuth :: string
  crossoverCacheExpiry :: int
  activityService :: activity
  cacheService :: cache
  limiterService :: limiter

definition NewPlanProxy :: "(string \<Rightarrow> bool) \<Rightarrow> string \<Rightarrow> string \<Rightarrow> PlanProxy outcome" where
  "NewPlanProxy url_Parse_ok key rawUrl =
     (if \<not> url_Parse_ok rawUrl then Panic (''invalid raw plan proxy url '' @ rawUrl)
      else Return \<lparr>requestUrl = rawUrl, proxyApiKey = key\<rparr>)"

definition NewLimiter :: "(string \<Rightarrow> bool) \<Rightarrow> string \<Rightarrow> string \<Rightarrow> limiter outcome" where
  "NewLimiter url_Parse_ok key address =
     (case NewPlanProxy url_Parse_ok key address of
        Panic m \<Rightarrow> Panic m
      | Return p \<Rightarrow> Return \<lparr>planProxy = p\<rparr>)"

text \<open>
  \<open>New\<close>: nine checks, then the construction. \<open>RedisAuth\<close> is not checked, and the
  handler's \<open>redisAuth\<close> field is not assigned (it keeps the zero value). The background
  worker started at the end begins in \<open>BatchProcessor_init\<close>.
\<close>

definition New ::
  "(string \<Rightarrow> regexp option) \<Rightarrow> (string \<Rightarrow> bool) \<Rightarrow> handler \<Rightarrow> Config \<Rightarrow> string
     \<Rightarrow> (error + Crossover) outcome" where
  "New regexp_Compile url_Parse_ok nxt config nm =
     (if length (Pattern config) = 0 then Return (Inl ''pattern can't be empty'')
      else if length (APIKey config) = 0 then Return (Inl ''APIKey can't be empty'')
      else if length (ActivityAddress config) = 0 then Return (Inl ''activityAddress can't be empty'')
      else if length (PlanAddress config) = 0 then Return (Inl ''planAddress can't be empty'')
      else if length (RedisAddress config) = 0 then Return (Inl ''RedisAddress can't be empty'')
      else if CacheExpiry config = 0 then Return (Inl ''cacheExpiry can't be empty'')
      else if BufferSize config = 0 then Return (Inl ''bufferSize can't be empty'')
      else if BatchSize config = 0 then Return (Inl ''batchSize can't be empty'')
      else if FlushInterval config = 0 then Return (Inl ''flushInterval can't be empty'')
      else
        (case regexp_Compile (Pattern config) of
           None \<Rightarrow> Panic (''regexp: Compile('' @ Pattern config @ '')'')
         | Some compiled \<Rightarrow>
             (case NewActivity (ActivityAddress config) (APIKey config) (BufferSize config)
                     (BatchSize config) (FlushInterval config) of
                Panic m \<Rightarrow> Panic m
              | Return newActivity \<Rightarrow>
                  (case NewLimiter url_Parse_ok (APIKey config) (PlanAddress config) of
                     Panic m \<Rightarrow> Panic m
                   | Return newLimiterService \<Rightarrow>
                       Return (Inr \<lparr>next_handler = nxt, name = nm, compiledPattern = compiled,
                                    apiKey = APIKey config, planAddress = PlanAddress config,
                                    redisAddress = RedisAddress config, redisAuth = [],
                                    crossoverCacheExpiry = CacheExpiry config,
                                    activityService = newActivity,
                                    cacheService = NewCache (CacheExpiry config),
                                    limiterService = newLimiterService\<rparr>)))))"

text \<open>
  \<open>extractUserID\<close>: the slice expression \<open>match[0][10:]\<close> panics when the match has
  fewer than 10 bytes. \<open>uuid_Parse\<close> gives the canonical string of the UUID it parsed.
\<close>

definition extractUserID :: "(string \<Rightarrow> string option) \<Rightarrow> Crossover \<Rightarrow> string \<Rightarrow> string outcome" where
  "extractUserID uuid_Parse crossover path =
     (let match = compiledPattern crossover path in
      if length match = 0 then Return []
      else if length (match ! 0) < 10 then Panic ''slice bounds out of range''
      else (case uuid_Parse (drop 10 (match ! 0)) of
              None \<Rightarrow> Return []
            | Some parsedUUID \<Rightarrow> Return parsedUUID))"

definition requestKey :: "Crossover \<Rightarrow> string \<Rightarrow> string" where
  "requestKey crossover path =
     (let match = compiledPattern crossover path in
      if length match = 0 then [] else match ! 0)"





section \<open>Properties\<close>

subsection \<open>Decimal strings\<close>

lemma digit_val_digit_char: "d < 10 \<Longrightarrow> digit_val (digit_char d) = Some d"
  by (simp add: digit_val_def digit_char_def Let_def)

lemma parse_digits_append:
  "parse_digits acc (xs @ [c]) =
     (case parse_digits acc xs of None \<Rightarrow> None
      | Some v \<Rightarrow> (case digit_val c of None \<Rightarrow> None | Some d \<Rightarrow> Some (v * 10 + d)))"
  by (induction xs arbitrary: acc) (auto split: option.splits)

lemma parse_nat_digits: "parse_digits 0 (nat_digits n) = Some n"
proof (induction n rule: nat_digits.induct)
  case (1 n)
  show ?case
  proof (cases "n < 10")
    case True
    then show ?thesis
      by (subst nat_digits.simps) (simp add: digit_val_digit_char)
  next
    case False
    with 1 have ih: "parse_digits 0 (nat_digits (n div 10)) = Some (n div 10)" by simp
    have "n mod 10 < 10" by simp
    with False ih show ?thesis
      by (subst nat_digits.simps) (simp add: parse_digits_append digit_val_digit_char)
  qed
qed

lemma nat_digits_nonempty: "nat_digits n \<noteq> []"
  by (subst nat_digits.simps) simp

lemma digit_char_not_minus: "d < 10 \<Longrightarrow> digit_char d = CHR ''-'' \<Longrightarrow> False"
proof -
  assume d: "d < 10" and e: "digit_char d = CHR ''-''"
  have "digit_val (CHR ''-'') = None" by (simp add: digit_val_def)
  with digit_val_digit_char[OF d] e show False by simp
qed

lemma hd_nat_digits: "hd (nat_digits n) \<noteq> CHR ''-''"
proof (induction n rule: nat_digits.induct)
  case (1 n)
  show ?case
  proof (cases "n < 10")
    case True
    then show ?thesis by (subst nat_digits.simps) (auto dest: digit_char_not_minus)
  next
    case False
    with 1 have "hd (nat_digits (n div 10)) \<noteq> CHR ''-''" by simp
    with False show ?thesis
      by (subst nat_digits.simps) (simp add: nat_digits_nonempty)
  qed
qed

lemma parse_int_Itoa: "parse_int (Itoa i) = Some i"
proof (cases "i < 0")
  case True
  then show ?thesis
    by (simp add: parse_int_def Itoa_def nat_digits_nonempty parse_nat_digits)
next
  case False
  obtain c cs where e: "nat_digits (nat i) = c # cs"
    using nat_digits_nonempty[of "nat i"] by (cases "nat_digits (nat i)") auto
  have "c \<noteq> CHR ''-''" using hd_nat_digits[of "nat i"] e by simp
  moreover have "parse_digits 0 (c # cs) = Some (nat i)" using parse_nat_digits[of "nat i"] e by simp
  ultimately show ?thesis using False e
    by (simp add: parse_int_def Itoa_def del: parse_digits.simps)
qed

lemma store_int_Itoa: "store_int (Itoa i) = Some i"
  by (simp add: store_int_def parse_int_Itoa)

subsection \<open>One call of \<open>allow\<close>\<close>

lemma allow_first:
  assumes "faults s = []" and "live s (uid @ UserRateKeySuffix) = None"
  shows "allow s uid lim =
           (Inr (1 \<le> lim),
            s\<lparr>kv := (kv s)(uid @ UserRateKeySuffix \<mapsto> Itoa 1),
              expiry := (expiry s)(uid @ UserRateKeySuffix \<mapsto> clock s + 1000),
              calls := calls s @ [CIncr (uid @ UserRateKeySuffix), CExpire (uid @ UserRateKeySuffix) 1]\<rparr>)"
  using assms
  by (auto simp: allow_def Incr_def Expire_def begin_call_def live_def UserRateLimitingWindow_def Let_def
           split: option.splits if_splits)

lemma allow_counting:
  assumes "faults s = []" and "kv s (uid @ UserRateKeySuffix) = Some (Itoa c)"
    and "expiry s (uid @ UserRateKeySuffix) = Some D" and "clock s < D" and "1 \<le> c"
  shows "allow s uid lim =
           (Inr (c + 1 \<le> lim),
            s\<lparr>kv := (kv s)(uid @ UserRateKeySuffix \<mapsto> Itoa (c + 1)),
              calls := calls s @ [CIncr (uid @ UserRateKeySuffix)]\<rparr>)"
  using assms
  by (simp add: allow_def Incr_def begin_call_def live_def store_int_Itoa Let_def)

subsection \<open>Requests inside one window\<close>

lemma allow_run_counting:
  assumes "faults s = []" and "kv s (uid @ UserRateKeySuffix) = Some (Itoa c)"
    and "expiry s (uid @ UserRateKeySuffix) = Some D" and "clock s + sum_list ds < D" and "1 \<le> c"
  shows "fst (allow_run s uid lim ds) = map (\<lambda>i. Inr (c + int i + 1 \<le> lim)) [0..<length ds]
       \<and> calls (snd (allow_run s uid lim ds)) = calls s @ replicate (length ds) (CIncr (uid @ UserRateKeySuffix))
       \<and> expiry (snd (allow_run s uid lim ds)) (uid @ UserRateKeySuffix) = Some D"
  using assms
proof (induction ds arbitrary: s c)
  case Nil
  then show ?case by simp
next
  case (Cons d ds)
  let ?k = "uid @ UserRateKeySuffix"
  let ?s0 = "advance d s"
  let ?s1 = "?s0\<lparr>kv := (kv ?s0)(?k \<mapsto> Itoa (c + 1)), calls := calls ?s0 @ [CIncr ?k]\<rparr>"
  have a: "allow ?s0 uid lim = (Inr (c + 1 \<le> lim), ?s1)"
    using Cons.prems by (intro allow_counting[where D = D]) (simp_all add: advance_def)
  have ih: "fst (allow_run ?s1 uid lim ds) = map (\<lambda>i. Inr ((c + 1) + int i + 1 \<le> lim)) [0..<length ds]
       \<and> calls (snd (allow_run ?s1 uid lim ds)) = calls ?s1 @ replicate (length ds) (CIncr ?k)
       \<and> expiry (snd (allow_run ?s1 uid lim ds)) ?k = Some D"
    using Cons.prems by (intro Cons.IH) (simp_all add: advance_def)
  have m: "map (\<lambda>i. Inr (c + int i + 1 \<le> lim)) [0..<length (d # ds)]
             = (Inr (c + 1 \<le> lim) :: error + bool) # map (\<lambda>i. Inr ((c + 1) + int i + 1 \<le> lim)) [0..<length ds]"
    by (simp add: map_upt_Suc add.commute add.left_commute del: upt_Suc)
  show ?case
    unfolding m using a ih
    by (simp add: case_prod_beta advance_def replicate_app_Cons_same)
qed

lemma allow_verdict:
  "allow s uid lim = (Inr b, s') \<Longrightarrow>
     \<exists>count. fst (Incr s (uid @ UserRateKeySuffix)) = Inr count \<and> b = (count \<le> lim)"
  by (auto simp: allow_def Let_def split: prod.splits sum.splits if_splits)

lemma calls_Incr: "calls (snd (Incr s k)) = calls s @ [CIncr k]"
  by (simp add: Incr_def begin_call_def Let_def split: list.splits option.splits)

lemma calls_Expire: "calls (snd (Expire s k n)) = calls s @ [CExpire k n]"
  by (simp add: Expire_def begin_call_def Let_def split: list.splits option.splits)

lemma allow_calls:
  "calls (snd (allow s uid lim)) =
     calls s @ CIncr (uid @ UserRateKeySuffix) #
       (if fst (Incr s (uid @ UserRateKeySuffix)) = Inr 1
        then [CExpire (uid @ UserRateKeySuffix) UserRateLimitingWindow] else [])"
proof -
  obtain r s1 where i: "Incr s (uid @ UserRateKeySuffix) = (r, s1)" by (cases "Incr s (uid @ UserRateKeySuffix)")
  have c1: "calls s1 = calls s @ [CIncr (uid @ UserRateKeySuffix)]"
    using calls_Incr[of s "uid @ UserRateKeySuffix"] i by simp
  show ?thesis
  proof (cases "r = Inr 1")
    case True
    obtain r2 s2 where e: "Expire s1 (uid @ UserRateKeySuffix) UserRateLimitingWindow = (r2, s2)"
      by (cases "Expire s1 (uid @ UserRateKeySuffix) UserRateLimitingWindow")
    have "calls s2 = calls s1 @ [CExpire (uid @ UserRateKeySuffix) UserRateLimitingWindow]"
      using calls_Expire[of s1 "uid @ UserRateKeySuffix" UserRateLimitingWindow] e by simp
    with True i e c1 show ?thesis
      by (simp add: allow_def Let_def split: sum.splits)
  next
    case False
    with i c1 show ?thesis
      by (auto simp: allow_def Let_def split: sum.splits)
  qed
qed

lemma expiry_Incr: "fst (Incr s k) \<noteq> Inr 1 \<Longrightarrow> expiry (snd (Incr s k)) = expiry s"
  by (auto simp: Incr_def begin_call_def Let_def split: list.splits option.splits if_splits)

lemma allow_keeps_expiry:
  "fst (Incr s (uid @ UserRateKeySuffix)) \<noteq> Inr 1 \<Longrightarrow> expiry (snd (allow s uid lim)) = expiry s"
proof -
  assume n: "fst (Incr s (uid @ UserRateKeySuffix)) \<noteq> Inr 1"
  obtain r s1 where i: "Incr s (uid @ UserRateKeySuffix) = (r, s1)" by (cases "Incr s (uid @ UserRateKeySuffix)")
  have "expiry s1 = expiry s" using expiry_Incr[OF n] i by simp
  with n i show ?thesis by (auto simp: allow_def Let_def split: sum.splits)
qed

lemma allow_run_window:
  assumes "faults s = []"
    and "live (advance d s) (uid @ UserRateKeySuffix) = None"
    and "sum_list ds < 1000"
  shows "fst (allow_run s uid lim (d # ds)) = map (\<lambda>i. Inr (int i + 1 \<le> lim)) [0..<length (d # ds)]
       \<and> calls (snd (allow_run s uid lim (d # ds))) =
           calls s @ CIncr (uid @ UserRateKeySuffix) # CExpire (uid @ UserRateKeySuffix) 1 #
             replicate (length ds) (CIncr (uid @ UserRateKeySuffix))
       \<and> expiry (snd (allow_run s uid lim (d # ds))) (uid @ UserRateKeySuffix) = Some (clock s + d + 1000)"
proof -
  let ?k = "uid @ UserRateKeySuffix"
  let ?s0 = "advance d s"
  let ?s1 = "?s0\<lparr>kv := (kv ?s0)(?k \<mapsto> Itoa 1), expiry := (expiry ?s0)(?k \<mapsto> clock ?s0 + 1000),
                 calls := calls ?s0 @ [CIncr ?k, CExpire ?k 1]\<rparr>"
  have a: "allow ?s0 uid lim = (Inr (1 \<le> lim), ?s1)"
    using assms by (intro allow_first) (simp_all add: advance_def)
  have r: "fst (allow_run ?s1 uid lim ds) = map (\<lambda>i. Inr (1 + int i + 1 \<le> lim)) [0..<length ds]
       \<and> calls (snd (allow_run ?s1 uid lim ds)) = calls ?s1 @ replicate (length ds) (CIncr ?k)
       \<and> expiry (snd (allow_run ?s1 uid lim ds)) ?k = Some (clock s + d + 1000)"
    using assms by (intro allow_run_counting) (simp_all add: advance_def)
  have m: "map (\<lambda>i. Inr (int i + 1 \<le> lim)) [0..<length (d # ds)]
             = (Inr (1 \<le> lim) :: error + bool) # map (\<lambda>i. Inr (1 + int i + 1 \<le> lim)) [0..<length ds]"
    by (simp add: map_upt_Suc add.commute add.left_commute del: upt_Suc)
  show ?thesis
    unfolding m using a r
    by (simp add: case_prod_beta advance_def)
qed



text \<open>
  Claim C2. In such a window the expiry of the counter key is set once: the calls that
  reach the store are the first increment, one \<open>Expire\<close> right after it, and then
  increments only; after the last request the deadline of the key is still the one set
  by the first request.
\<close>

theorem expiry_set_once_per_window:
  assumes "faults s = []"
    and "live (advance d s) (userId @ UserRateKeySuffix) = None"
    and "sum_list ds < 1000 * nat UserRateLimitingWindow"
  shows "calls (snd (allow_run s userId Q (d # ds))) =
           calls s @ CIncr (userId @ UserRateKeySuffix) #
             CExpire (userId @ UserRateKeySuffix) UserRateLimitingWindow #
             replicate (length ds) (CIncr (userId @ UserRateKeySuffix))
       \<and> expiry (snd (allow_run s userId Q (d # ds))) (userId @ UserRateKeySuffix) =
           Some (clock s + d + 1000 * nat UserRateLimitingWindow)"
proof -
  have w: "sum_list ds < 1000" using assms(3) by (simp add: UserRateLimitingWindow_def)
  show ?thesis
    using allow_run_window[OF assms(1,2) w, of Q] by (simp add: UserRateLimitingWindow_def)
qed

theorem expiry_set_once_per_window_witness:
  "faults \<lparr>kv = Map.empty, expiry = Map.empty, clock = 0, faults = [], calls = []\<rparr> = []
   \<and> live (advance 0 \<lparr>kv = Map.empty, expiry = Map.empty, clock = 0, faults = [], calls = []\<rparr>)
        (''u'' @ UserRateKeySuffix) = None
   \<and> sum_list [100, 200] < 1000 * nat UserRateLimitingWindow
   \<and> calls (snd (allow_run \<lparr>kv = Map.empty, expiry = Map.empty, clock = 0, faults = [], calls = []\<rparr>
          ''u'' 2 [0, 100, 200])) =
       [CIncr ''u-rate'', CExpire ''u-rate'' 1, CIncr ''u-rate'', CIncr ''u-rate'']
   \<and> expiry (snd (allow_run \<lparr>kv = Map.empty, expiry = Map.empty, clock = 0, faults = [], calls = []\<rparr>
          ''u'' 2 [0, 100, 200])) ''u-rate'' = Some 1000"
  using expiry_set_once_per_window
    [of "\<lparr>kv = Map.empty, expiry = Map.empty, clock = 0, faults = [], calls = []\<rparr>" 0 "''u''"
        "[100, 200]" 2]
  by (simp add: live_def advance_def UserRateLimitingWindow_def UserRateKeySuffix_def)

subsection \<open>Telemetry batcher\<close>




subsection \<open>Plan resolver\<close>

lemma fetch_error_is_opaque:
  "fetch net dec proxy userId = Return (Inl e) \<Longrightarrow> e = something_went_wrong"
  by (auto simp: fetch_def Let_def split: option.splits prod.splits sum.splits if_splits)

lemma fetch_with_response:
  assumes "NewRequest_error net (requestUrl proxy @ ''?userId='' @ userId) = None"
    and "Do net \<lparr>Method = ''GET'', URL = requestUrl proxy @ ''?userId='' @ userId,
                 ReqHeaders = [(''Content-Type'', ''application/json''), (''X-Api-Key'', proxyApiKey proxy)],
                 Payload = []\<rparr> = (Some httpRes, err)"
  shows "fetch net dec proxy userId =
           (if err = None \<and> resStatusCode httpRes = StatusOK
            then (case dec (resBody httpRes) of
                    Inl e \<Rightarrow> Return (Inl something_went_wrong)
                  | Inr response \<Rightarrow> Return (Inr (Itoa (RequestLimit response))))
            else Return (Inl something_went_wrong))"
  using assms by (auto simp: fetch_def Let_def split: option.splits sum.splits)

text \<open>
  Claim C4 says that \<open>fetch\<close> answers a transport error with the failure
  ``something went wrong'' and never panics. The code panics there: when the client
  returns no response, the deferred \<open>httpRes.Body.Close()\<close> dereferences nil before
  the error is looked at. (With a response in hand every failure is the one opaque
  error, as the two lemmas above say.)
\<close>

theorem fetch_transport_error_panics:
  "fetch \<lparr>NewRequest_error = (\<lambda>u. None), Do = (\<lambda>r. (None, Some ''dial tcp: connection refused''))\<rparr>
         dec proxy userId = Panic nil_dereference"
  by (simp add: fetch_def Let_def)

subsection \<open>Response cache\<close>

lemma written_recorder_apply: "written (rw (recorder_apply op r)) = written (rw r)"
  by (cases op) (simp_all add: recorder_apply_def)

lemma written_fold_recorder: "written (rw (fold recorder_apply ops r)) = written (rw r)"
  by (induction ops arbitrary: r) (simp_all add: written_recorder_apply)

lemma written_record_upstream: "written (rw (record_upstream w req next)) = written w"
  by (simp add: record_upstream_def written_fold_recorder)

lemma calls_Get: "calls (snd (Get s k)) = calls s @ [CGet k]"
  by (simp add: Get_def begin_call_def Let_def split: list.splits)

lemma calls_Delete: "calls (snd (Delete s k)) = calls s @ [CDelete k]"
  by (simp add: Delete_def begin_call_def Let_def split: list.splits)

lemma calls_SetWithTTL: "calls (snd (SetWithTTL s k v t)) = calls s @ [CSetWithTTL k v t]"
  by (simp add: SetWithTTL_def begin_call_def Let_def split: list.splits)

lemma kv_Delete: "fst (Delete s k) = None \<Longrightarrow> kv (snd (Delete s k)) k = None"
  by (auto simp: Delete_def begin_call_def Let_def split: list.splits if_splits)

lemma kv_SetWithTTL: "kv (snd (SetWithTTL s k v t)) k = kv s k \<or> kv (snd (SetWithTTL s k v t)) k = Some v"
  by (simp add: SetWithTTL_def begin_call_def Let_def split: list.splits)

lemma kv_SetWithTTL_ok: "fst (SetWithTTL s k v t) = None \<Longrightarrow> kv (snd (SetWithTTL s k v t)) k = Some v"
  by (auto simp: SetWithTTL_def begin_call_def Let_def split: list.splits if_splits)

lemma cache_miss_writer:
  "fst (cache_miss codec c w req next s) =
     (rw (record_upstream w req next))
       \<lparr>written := written w @ [WriteHeader (status (record_upstream w req next)),
                                Write (recorded (record_upstream w req next))]\<rparr>"
  by (simp add: cache_miss_def Let_def case_prod_beta written_record_upstream)

lemma cache_miss_store:
  "fst (snd (cache_miss codec c w req next s)) =
     snd (SetWithTTL s (URL_Path req)
            (fst (Encode codec \<lparr>StatusCode = status (record_upstream w req next),
                                Headers = Header (rw (record_upstream w req next)),
                                Body = recorded (record_upstream w req next)\<rparr>))
            (cacheExpiry c))"
  by (simp add: cache_miss_def Let_def case_prod_beta)

lemma ServeHTTP_corrupted:
  assumes "Get s (URL_Path req) = (Inr v, s1)" and "v \<noteq> []" and "Decode codec v = Inl e"
  shows "cache_ServeHTTP codec c w req next s = cache_miss codec c w req next (snd (Delete s1 (URL_Path req)))"
  using assms by (simp add: cache_ServeHTTP_def Let_def)

lemma ServeHTTP_not_hit:
  assumes "\<not> (\<exists>v cr. fst (Get s (URL_Path req)) = Inr v \<and> v \<noteq> [] \<and> Decode codec v = Inr cr)"
  shows "\<exists>s'. cache_ServeHTTP codec c w req next s = cache_miss codec c w req next s'"
proof (cases "Get s (URL_Path req)")
  case (Pair r s1)
  show ?thesis
  proof (cases r)
    case (Inl err)
    with Pair show ?thesis by (auto simp: cache_ServeHTTP_def Let_def)
  next
    case (Inr v)
    show ?thesis
    proof (cases "v = []")
      case True
      with Pair Inr show ?thesis by (auto simp: cache_ServeHTTP_def Let_def)
    next
      case False
      with assms Pair Inr obtain e where "Decode codec v = Inl e"
        by (cases "Decode codec v") auto
      with Pair Inr False show ?thesis by (auto simp: cache_ServeHTTP_def Let_def)
    qed
  qed
qed

text \<open>
  Claim C5. When the lookup returns a non-empty value that does not decode, the cache
  asks the store to delete the key, runs the upstream handler, asks the store to set the
  key to the new envelope, and answers the caller with the upstream's status and body,
  not with an error. When the store carries out the delete, the key afterwards is
  either absent or holds the new envelope: the undecodable entry is gone.
\<close>

theorem corrupted_entry_deleted_and_refilled:
  assumes "Get s (URL_Path req) = (Inr v, s1)" and "v \<noteq> []" and "Decode codec v = Inl e"
  shows "calls (fst (snd (cache_ServeHTTP codec c w req next s))) =
           calls s @ [CGet (URL_Path req), CDelete (URL_Path req),
                      CSetWithTTL (URL_Path req)
                        (fst (Encode codec \<lparr>StatusCode = status (record_upstream w req next),
                                            Headers = Header (rw (record_upstream w req next)),
                                            Body = recorded (record_upstream w req next)\<rparr>))
                        (cacheExpiry c)]
       \<and> written (fst (cache_ServeHTTP codec c w req next s)) =
           written w @ [WriteHeader (status (record_upstream w req next)),
                        Write (recorded (record_upstream w req next))]
       \<and> (fst (Delete s1 (URL_Path req)) = None \<longrightarrow>
            kv (fst (snd (cache_ServeHTTP codec c w req next s))) (URL_Path req) = None
          \<or> kv (fst (snd (cache_ServeHTTP codec c w req next s))) (URL_Path req) =
              Some (fst (Encode codec \<lparr>StatusCode = status (record_upstream w req next),
                                        Headers = Header (rw (record_upstream w req next)),
                                        Body = recorded (record_upstream w req next)\<rparr>)))"
proof -
  let ?k = "URL_Path req"
  let ?buf = "fst (Encode codec \<lparr>StatusCode = status (record_upstream w req next),
                                  Headers = Header (rw (record_upstream w req next)),
                                  Body = recorded (record_upstream w req next)\<rparr>)"
  let ?s2 = "snd (Delete s1 ?k)"
  have m: "cache_ServeHTTP codec c w req next s = cache_miss codec c w req next ?s2"
    by (rule ServeHTTP_corrupted[OF assms])
  have st: "fst (snd (cache_ServeHTTP codec c w req next s)) = snd (SetWithTTL ?s2 ?k ?buf (cacheExpiry c))"
    unfolding m by (rule cache_miss_store)
  have c1: "calls s1 = calls s @ [CGet ?k]"
    using calls_Get[of s ?k] assms(1) by simp
  have a: "calls (fst (snd (cache_ServeHTTP codec c w req next s))) =
             calls s @ [CGet ?k, CDelete ?k, CSetWithTTL ?k ?buf (cacheExpiry c)]"
    unfolding st by (simp add: calls_SetWithTTL calls_Delete c1)
  have b: "written (fst (cache_ServeHTTP codec c w req next s)) =
             written w @ [WriteHeader (status (record_upstream w req next)),
                          Write (recorded (record_upstream w req next))]"
    unfolding m by (simp add: cache_miss_writer)
  have d: "fst (Delete s1 ?k) = None \<longrightarrow>
             kv (fst (snd (cache_ServeHTTP codec c w req next s))) ?k = None
           \<or> kv (fst (snd (cache_ServeHTTP codec c w req next s))) ?k = Some ?buf"
    unfolding st using kv_SetWithTTL[of ?s2 ?k ?buf "cacheExpiry c"] kv_Delete[of s1 ?k] by auto
  from a b d show ?thesis by blast
qed

theorem corrupted_entry_deleted_and_refilled_witness:
  "Get \<lparr>kv = [''/r'' \<mapsto> ''garbage''], expiry = Map.empty, clock = 0, faults = [], calls = []\<rparr> ''/r''
     = (Inr ''garbage'', \<lparr>kv = [''/r'' \<mapsto> ''garbage''], expiry = Map.empty, clock = 0, faults = [], calls = [CGet ''/r'']\<rparr>)
   \<and> fst (Delete \<lparr>kv = [''/r'' \<mapsto> ''garbage''], expiry = Map.empty, clock = 0, faults = [], calls = [CGet ''/r'']\<rparr> ''/r'') = None
   \<and> calls (fst (snd (cache_ServeHTTP
      \<lparr>Encode = (\<lambda>e. (''fresh'', None)), Decode = (\<lambda>b. if b = ''fresh'' then Inr \<lparr>StatusCode = 200, Headers = [], Body = ''ok''\<rparr> else Inl ''gob: bad data'')\<rparr>
      \<lparr>cacheExpiry = 60\<rparr> \<lparr>Header = [], written = []\<rparr>
      \<lparr>URL_Path = ''/r'', ReqHeader = [], ReqBody = \<lparr>content = [], read_err = None\<rparr>\<rparr>
      (\<lambda>r. [HAdd ''Content-Type'' ''text/plain'', HWriteHeader 200, HWrite ''ok''])
      \<lparr>kv = [''/r'' \<mapsto> ''garbage''], expiry = Map.empty, clock = 0, faults = [], calls = []\<rparr>))) =
       [CGet ''/r'', CDelete ''/r'', CSetWithTTL ''/r'' ''fresh'' 60]
   \<and> written (fst (cache_ServeHTTP
      \<lparr>Encode = (\<lambda>e. (''fresh'', None)), Decode = (\<lambda>b. if b = ''fresh'' then Inr \<lparr>StatusCode = 200, Headers = [], Body = ''ok''\<rparr> else Inl ''gob: bad data'')\<rparr>
      \<lparr>cacheExpiry = 60\<rparr> \<lparr>Header = [], written = []\<rparr>
      \<lparr>URL_Path = ''/r'', ReqHeader = [], ReqBody = \<lparr>content = [], read_err = None\<rparr>\<rparr>
      (\<lambda>r. [HAdd ''Content-Type'' ''text/plain'', HWriteHeader 200, HWrite ''ok''])
      \<lparr>kv = [''/r'' \<mapsto> ''garbage''], expiry = Map.empty, clock = 0, faults = [], calls = []\<rparr>)) = [WriteHeader 200, Write ''ok'']
   \<and> kv (fst (snd (cache_ServeHTTP
      \<lparr>Encode = (\<lambda>e. (''fresh'', None)), Decode = (\<lambda>b. if b = ''fresh'' then Inr \<lparr>StatusCode = 200, Headers = [], Body = ''ok''\<rparr> else Inl ''gob: bad data'')\<rparr>
      \<lparr>cacheExpiry = 60\<rparr> \<lparr>Header = [], written = []\<rparr>
      \<lparr>URL_Path = ''/r'', ReqHeader = [], ReqBody = \<lparr>content = [], read_err = None\<rparr>\<rparr>
      (\<lambda>r. [HAdd ''Content-Type'' ''text/plain'', HWriteHeader 200, HWrite ''ok''])
      \<lparr>kv = [''/r'' \<mapsto> ''garbage''], expiry = Map.empty, clock = 0, faults = [], calls = []\<rparr>))) ''/r'' = Some ''fresh''"
  using corrupted_entry_deleted_and_refilled
    [of "\<lparr>kv = [''/r'' \<mapsto> ''garbage''], expiry = Map.empty, clock = 0, faults = [], calls = []\<rparr>"
        "\<lparr>URL_Path = ''/r'', ReqHeader = [], ReqBody = \<lparr>content = [], read_err = None\<rparr>\<rparr>"
        "''garbage''"
        "\<lparr>kv = [''/r'' \<mapsto> ''garbage''], expiry = Map.empty, clock = 0, faults = [], calls = [CGet ''/r'']\<rparr>"
        "\<lparr>Encode = (\<lambda>e. (''fresh'', None)), Decode = (\<lambda>b. if b = ''fresh'' then Inr \<lparr>StatusCode = 200, Headers = [], Body = ''ok''\<rparr> else Inl ''gob: bad data'')\<rparr>"
        "''gob: bad data''"
        "\<lparr>cacheExpiry = 60\<rparr>" "\<lparr>Header = [], written = []\<rparr>"
        "(\<lambda>r. [HAdd ''Content-Type'' ''text/plain'', HWriteHeader 200, HWrite ''ok''])"]
  by (simp add: cache_ServeHTTP_def cache_miss_def Get_def Delete_def SetWithTTL_def begin_call_def live_def Let_def
        record_upstream_def recorder_apply_def)

text \<open>
  Claim C6. Whenever the lookup is not a valid hit, the caller's writer ends as the
  upstream handler left its headers, with one \<open>WriteHeader\<close> of the captured status and
  one \<open>Write\<close> of the captured body appended. The right-hand side does not mention the
  store: the outcome of the write to the cache cannot change the response.
\<close>

theorem miss_response_replayed_once:
  assumes "\<not> (\<exists>v cr. fst (Get s (URL_Path req)) = Inr v \<and> v \<noteq> [] \<and> Decode codec v = Inr cr)"
  shows "fst (cache_ServeHTTP codec c w req next s) =
           (rw (record_upstream w req next))
             \<lparr>written := written w @ [WriteHeader (status (record_upstream w req next)),
                                      Write (recorded (record_upstream w req next))]\<rparr>"
proof -
  obtain s' where "cache_ServeHTTP codec c w req next s = cache_miss codec c w req next s'"
    using ServeHTTP_not_hit[OF assms] by blast
  then show ?thesis by (simp add: cache_miss_writer)
qed

theorem miss_response_replayed_once_witness:
  "fst (cache_ServeHTTP
      \<lparr>Encode = (\<lambda>e. (''fresh'', None)), Decode = (\<lambda>b. if b = ''fresh'' then Inr \<lparr>StatusCode = 200, Headers = [], Body = ''ok''\<rparr> else Inl ''gob: bad data'')\<rparr>
      \<lparr>cacheExpiry = 60\<rparr> \<lparr>Header = [], written = []\<rparr>
      \<lparr>URL_Path = ''/r'', ReqHeader = [], ReqBody = \<lparr>content = [], read_err = None\<rparr>\<rparr>
      (\<lambda>r. [HAdd ''Content-Type'' ''text/plain'', HWriteHeader 200, HWrite ''ok''])
      \<lparr>kv = Map.empty, expiry = Map.empty, clock = 0, faults = [False, True], calls = []\<rparr>) = \<lparr>Header = [(''Content-Type'', [''text/plain''])], written = [WriteHeader 200, Write ''ok'']\<rparr>
   \<and> fst (cache_ServeHTTP
      \<lparr>Encode = (\<lambda>e. (''fresh'', None)), Decode = (\<lambda>b. if b = ''fresh'' then Inr \<lparr>StatusCode = 200, Headers = [], Body = ''ok''\<rparr> else Inl ''gob: bad data'')\<rparr>
      \<lparr>cacheExpiry = 60\<rparr> \<lparr>Header = [], written = []\<rparr>
      \<lparr>URL_Path = ''/r'', ReqHeader = [], ReqBody = \<lparr>content = [], read_err = None\<rparr>\<rparr>
      (\<lambda>r. [HAdd ''Content-Type'' ''text/plain'', HWriteHeader 200, HWrite ''ok''])
      \<lparr>kv = Map.empty, expiry = Map.empty, clock = 0, faults = [], calls = []\<rparr>) = \<lparr>Header = [(''Content-Type'', [''text/plain''])], written = [WriteHeader 200, Write ''ok'']\<rparr>
   \<and> kv (fst (snd (cache_ServeHTTP
      \<lparr>Encode = (\<lambda>e. (''fresh'', None)), Decode = (\<lambda>b. if b = ''fresh'' then Inr \<lparr>StatusCode = 200, Headers = [], Body = ''ok''\<rparr> else Inl ''gob: bad data'')\<rparr>
      \<lparr>cacheExpiry = 60\<rparr> \<lparr>Header = [], written = []\<rparr>
      \<lparr>URL_Path = ''/r'', ReqHeader = [], ReqBody = \<lparr>content = [], read_err = None\<rparr>\<rparr>
      (\<lambda>r. [HAdd ''Content-Type'' ''text/plain'', HWriteHeader 200, HWrite ''ok''])
      \<lparr>kv = Map.empty, expiry = Map.empty, clock = 0, faults = [False, True], calls = []\<rparr>))) ''/r'' = None
   \<and> kv (fst (snd (cache_ServeHTTP
      \<lparr>Encode = (\<lambda>e. (''fresh'', None)), Decode = (\<lambda>b. if b = ''fresh'' then Inr \<lparr>StatusCode = 200, Headers = [], Body = ''ok''\<rparr> else Inl ''gob: bad data'')\<rparr>
      \<lparr>cacheExpiry = 60\<rparr> \<lparr>Header = [], written = []\<rparr>
      \<lparr>URL_Path = ''/r'', ReqHeader = [], ReqBody = \<lparr>content = [], read_err = None\<rparr>\<rparr>
      (\<lambda>r. [HAdd ''Content-Type'' ''text/plain'', HWriteHeader 200, HWrite ''ok''])
      \<lparr>kv = Map.empty, expiry = Map.empty, clock = 0, faults = [], calls = []\<rparr>))) ''/r'' = Some ''fresh''"
  using miss_response_replayed_once
    [of "\<lparr>kv = Map.empty, expiry = Map.empty, clock = 0, faults = [False, True], calls = []\<rparr>"
        "\<lparr>URL_Path = ''/r'', ReqHeader = [], ReqBody = \<lparr>content = [], read_err = None\<rparr>\<rparr>"
        "\<lparr>Encode = (\<lambda>e. (''fresh'', None)), Decode = (\<lambda>b. if b = ''fresh'' then Inr \<lparr>StatusCode = 200, Headers = [], Body = ''ok''\<rparr> else Inl ''gob: bad data'')\<rparr>"
        "\<lparr>cacheExpiry = 60\<rparr>" "\<lparr>Header = [], written = []\<rparr>"
        "(\<lambda>r. [HAdd ''Content-Type'' ''text/plain'', HWriteHeader 200, HWrite ''ok''])"]
  by (simp add: cache_ServeHTTP_def cache_miss_def Get_def SetWithTTL_def begin_call_def live_def Let_def
        record_upstream_def recorder_apply_def)

subsection \<open>Activity recorder\<close>

lemma LogActivity_within_capacity:
  "length (queue (logsChannel a)) \<le> capacity (logsChannel a) \<Longrightarrow>
   length (queue (logsChannel (fst (LogActivity a requestId cnt)))) \<le> capacity (logsChannel (fst (LogActivity a requestId cnt)))"
  by (simp add: LogActivity_def Let_def)



subsection \<open>Construction\<close>

text \<open>
  Claim C8, as stated, fails for the KV store credentials: a configuration with empty
  \<open>RedisAuth\<close> and every other field set is accepted.
\<close>

theorem New_accepts_empty_RedisAuth_counterexample:
  "RedisAuth \<lparr>Pattern = ''/v1/[0-9a-f-]+'', APIKey = ''k'', ActivityAddress = ''http://a'',
              PlanAddress = ''http://p'', RedisAddress = ''redis:6379'', RedisAuth = [],
              CacheExpiry = 60, BufferSize = 100, BatchSize = 10, FlushInterval = 5\<rparr> = []
   \<and> (case New (\<lambda>p. Some (\<lambda>path. [])) (\<lambda>u. True) (\<lambda>r. [])
              \<lparr>Pattern = ''/v1/[0-9a-f-]+'', APIKey = ''k'', ActivityAddress = ''http://a'',
                PlanAddress = ''http://p'', RedisAddress = ''redis:6379'', RedisAuth = [],
                CacheExpiry = 60, BufferSize = 100, BatchSize = 10, FlushInterval = 5\<rparr> ''crossover'' of
         Return (Inr h) \<Rightarrow> True
       | Return (Inl e) \<Rightarrow> False
       | Panic m \<Rightarrow> False)"
  by (simp add: New_def NewActivity_def NewLimiter_def NewPlanProxy_def)

text \<open>
  Claim C8, amended. Construction returns an error exactly when the pattern, the API
  key, the telemetry address, the plan address, the KV store address, the cache TTL,
  the buffer size, the batch size or the flush interval is empty or zero; the KV store
  credentials are not looked at.
\<close>

theorem New_fails_iff_required_field_empty:
  "(\<exists>msg. New regexp_Compile url_Parse_ok nxt config nm = Return (Inl msg)) =
     (Pattern config = [] \<or> APIKey config = [] \<or> ActivityAddress config = [] \<or>
      PlanAddress config = [] \<or> RedisAddress config = [] \<or> CacheExpiry config = 0 \<or>
      BufferSize config = 0 \<or> BatchSize config = 0 \<or> FlushInterval config = 0)"
  by (auto simp: New_def NewActivity_def NewLimiter_def NewPlanProxy_def
           split: option.splits outcome.splits if_splits)

theorem New_fails_iff_required_field_empty_witness:
  "New (\<lambda>p. Some (\<lambda>path. [])) (\<lambda>u. True) (\<lambda>r. [])
       \<lparr>Pattern = ''/v1/[0-9a-f-]+'', APIKey = ''k'', ActivityAddress = ''http://a'',
         PlanAddress = ''http://p'', RedisAddress = ''redis:6379'', RedisAuth = ''secret'',
         CacheExpiry = 60, BufferSize = 100, BatchSize = 0, FlushInterval = 5\<rparr> ''crossover''
     = Return (Inl ''batchSize can't be empty'')
   \<and> (\<exists>msg. New (\<lambda>p. Some (\<lambda>path. [])) (\<lambda>u. True) (\<lambda>r. [])
       \<lparr>Pattern = ''/v1/[0-9a-f-]+'', APIKey = ''k'', ActivityAddress = ''http://a'',
         PlanAddress = ''http://p'', RedisAddress = ''redis:6379'', RedisAuth = ''secret'',
         CacheExpiry = 60, BufferSize = 100, BatchSize = 0, FlushInterval = 5\<rparr> ''crossover''
     = Return (Inl msg))"
  using New_fails_iff_required_field_empty
    [of "\<lambda>p. Some (\<lambda>path. [])" "\<lambda>u. True" "\<lambda>r. []"
        "\<lparr>Pattern = ''/v1/[0-9a-f-]+'', APIKey = ''k'', ActivityAddress = ''http://a'',
          PlanAddress = ''http://p'', RedisAddress = ''redis:6379'', RedisAuth = ''secret'',
          CacheExpiry = 60, BufferSize = 100, BatchSize = 0, FlushInterval = 5\<rparr>" "''crossover''"]
  by (simp add: New_def)

subsection \<open>Identity extraction\<close>

lemma extractUserID_short_match:
  "compiledPattern crossover path = m # ms \<Longrightarrow> length m < 10 \<Longrightarrow>
   extractUserID uuid_Parse crossover path = Panic ''slice bounds out of range''"
  by (simp add: extractUserID_def Let_def)

lemma extractUserID_returns:
  "compiledPattern crossover path = [] \<or> 10 \<le> length (hd (compiledPattern crossover path)) \<Longrightarrow>
   \<exists>u. extractUserID uuid_Parse crossover path = Return u"
  by (cases "compiledPattern crossover path") (auto simp: extractUserID_def Let_def split: option.splits)

text \<open>
  Claim C9 says that \<open>extractUserID\<close> returns for every pattern and path. It does not
  when the match is shorter than 10 bytes: for a pattern that matches \<open>/v1/42\<close> in the
  path \<open>/v1/42\<close>, the slice \<open>match[0][10:]\<close> is out of range and the function panics.
\<close>

theorem extractUserID_panics_on_short_match:
  "extractUserID uuid_Parse (crossover\<lparr>compiledPattern := (\<lambda>path. [''/v1/42''])\<rparr>) ''/v1/42''
     = Panic ''slice bounds out of range''"
  by (simp add: extractUserID_def Let_def)

subsection \<open>Body snapshot\<close>



end
